theory Spec2Isabelle
  imports Complex_Main
begin

section \<open>Python values and errors\<close>

text \<open>
  The notebook builds its entities from arbitrary Python values and checks them at run
  time, so the arguments of the two dataclass constructors are values of a small universe
  of Python objects. A \<open>bool\<close> is kept apart from an \<open>int\<close> because Python's
  \<^verbatim>\<open>isinstance(True, int)\<close> holds (\<open>bool\<close> is a subclass of \<open>int\<close>), while a
  \<open>float\<close> is not an \<open>int\<close>. Only the class of a float matters below; its value is
  carried as a rational.
\<close>

datatype pyval =
    PyNone
  | PyBool bool
  | PyInt int
  | PyFloat rat
  | PyStr string
  | PyList "pyval list"

text \<open>
  Every exception the modelled cells can raise. The three assertion failures of the
  entities are all Python's \<open>AssertionError\<close>; the argument is the message.
  \<open>PulpError\<close> is raised by PuLP when a constraint is added under a name the problem
  already holds, \<open>KeyError\<close> by a dictionary lookup.
\<close>

datatype error =
    AssertionError string
  | PulpError string
  | KeyError int

datatype pyclass = Class_str | Class_int

datatype annotation = Plain pyclass | List_str

fun type_name :: "pyval \<Rightarrow> string" where
  "type_name PyNone = ''NoneType''"
| "type_name (PyBool _) = ''bool''"
| "type_name (PyInt _) = ''int''"
| "type_name (PyFloat _) = ''float''"
| "type_name (PyStr _) = ''str''"
| "type_name (PyList _) = ''list''"

definition class_repr :: "string \<Rightarrow> string" where
  "class_repr n = ''<class '' @ [CHR 0x27] @ n @ [CHR 0x27] @ ''>''"

fun annotation_repr :: "pyclass \<Rightarrow> string" where
  "annotation_repr Class_str = class_repr ''str''"
| "annotation_repr Class_int = class_repr ''int''"

fun isinstance :: "pyval \<Rightarrow> pyclass \<Rightarrow> bool" where
  "isinstance (PyStr _) Class_str = True"
| "isinstance (PyInt _) Class_int = True"
| "isinstance (PyBool _) Class_int = True"
| "isinstance _ _ = False"

fun is_list_of_str :: "pyval \<Rightarrow> bool" where
  "is_list_of_str (PyList xs) = list_all (\<lambda>i. isinstance i Class_str) xs"
| "is_list_of_str _ = False"

text \<open>The numeric value of an \<open>int\<close> instance: \<open>True\<close> is 1 and \<open>False\<close> is 0.\<close>

fun int_value :: "pyval \<Rightarrow> int" where
  "int_value (PyInt i) = i"
| "int_value (PyBool b) = (if b then 1 else 0)"
| "int_value _ = 0"

fun str_value :: "pyval \<Rightarrow> string" where
  "str_value (PyStr s) = s"
| "str_value _ = []"

fun str_items :: "pyval \<Rightarrow> string list" where
  "str_items (PyList xs) = map str_value xs"
| "str_items _ = []"

section \<open>Domain entities\<close>

text \<open>
  \<open>get_level_of_python_descriptor\<close>: the \<open>match\<close> statement of the source, with the
  \<open>ValueError\<close> of the default case as \<open>None\<close>.
\<close>

definition get_level_of_python_descriptor :: "int \<Rightarrow> string option" where
  "get_level_of_python_descriptor level_of_python =
     (if level_of_python = 0 then Some ''No Python''
      else if level_of_python = 1 then Some ''Basic Python''
      else if level_of_python = 2 then Some ''Intermediate Python''
      else if level_of_python = 3 then Some ''Advanced Python''
      else None)"

text \<open>
  \<open>validate_annotations\<close> walks the type hints of the instance in field order. Each
  item is the field's name \<open>k\<close>, its annotation \<open>v\<close> and the attribute's value; the
  first attribute that is not an instance of its annotation raises.
\<close>

fun validate_annotations :: "(string \<times> annotation \<times> pyval) list \<Rightarrow> error + unit" where
  "validate_annotations [] = Inr ()"
| "validate_annotations ((k, List_str, attr_value) # items) =
     (if is_list_of_str attr_value then validate_annotations items
      else Inl (AssertionError (''Expected '' @ k @ '' to be of type List[str], got ''
                 @ class_repr (type_name attr_value) @ '' instead.'')))"
| "validate_annotations ((k, Plain v, attr_value) # items) =
     (if isinstance attr_value v then validate_annotations items
      else Inl (AssertionError (''Expected '' @ k @ '' to be of type '' @ annotation_repr v
                 @ '', got '' @ class_repr (type_name attr_value) @ '' instead.'')))"

definition valid_levels :: "int set" where
  "valid_levels = {0, 1, 2, 3}"

definition valid_skills :: "string set" where
  "valid_skills = {''APIs'', ''Excel'', ''SQL''}"

record project =
  name :: string
  hours_saved_per_month :: int
  hours_to_implement :: int
  skills_required :: "string list"
  python_level_required :: int

record team_member =
  name :: string
  hours_available :: int
  skills :: "string list"
  python_level :: int

text \<open>
  The dataclass constructors: the generated \<open>__init__\<close> stores the five (four)
  arguments and \<open>__post_init__\<close> validates them. An instance exists only when every
  check passes. The record keeps the numeric value of each \<open>int\<close> attribute.
\<close>

definition Project :: "pyval \<Rightarrow> pyval \<Rightarrow> pyval \<Rightarrow> pyval \<Rightarrow> pyval \<Rightarrow> error + project" where
  "Project n saved implement required level =
     (case validate_annotations
             [(''name'', Plain Class_str, n),
              (''hours_saved_per_month'', Plain Class_int, saved),
              (''hours_to_implement'', Plain Class_int, implement),
              (''skills_required'', List_str, required),
              (''python_level_required'', Plain Class_int, level)] of
        Inl e \<Rightarrow> Inl e
      | Inr _ \<Rightarrow>
          if int_value level \<notin> valid_levels
          then Inl (AssertionError ''Invalid Python level required'')
          else if \<not> set (str_items required) \<subseteq> valid_skills
          then Inl (AssertionError ''Invalid skills required'')
          else Inr \<lparr> project.name = str_value n,
                     hours_saved_per_month = int_value saved,
                     hours_to_implement = int_value implement,
                     skills_required = str_items required,
                     python_level_required = int_value level \<rparr>)"

definition TeamMember :: "pyval \<Rightarrow> pyval \<Rightarrow> pyval \<Rightarrow> pyval \<Rightarrow> error + team_member" where
  "TeamMember n available has level =
     (case validate_annotations
             [(''name'', Plain Class_str, n),
              (''hours_available'', Plain Class_int, available),
              (''skills'', List_str, has),
              (''python_level'', Plain Class_int, level)] of
        Inl e \<Rightarrow> Inl e
      | Inr _ \<Rightarrow>
          if int_value level \<notin> valid_levels
          then Inl (AssertionError ''Invalid Python level'')
          else if \<not> set (str_items has) \<subseteq> valid_skills
          then Inl (AssertionError ''Invalid skills'')
          else Inr \<lparr> team_member.name = str_value n,
                     hours_available = int_value available,
                     skills = str_items has,
                     python_level = int_value level \<rparr>)"

text \<open>The data of the notebook's fourth cell.\<close>

definition projects :: "project list" where
  "projects =
     [\<lparr> project.name = ''Secondary Deliverables reporting'', hours_saved_per_month = 20,
         hours_to_implement = 160, skills_required = [''SQL'', ''Excel''],
         python_level_required = 2 \<rparr>,
      \<lparr> project.name = ''I&M Work Order generation'', hours_saved_per_month = 40,
         hours_to_implement = 200, skills_required = [''SQL'', ''Excel'', ''APIs''],
         python_level_required = 1 \<rparr>,
      \<lparr> project.name = ''ISS'', hours_saved_per_month = 5,
         hours_to_implement = 80, skills_required = [''SQL''],
         python_level_required = 1 \<rparr>,
      \<lparr> project.name = ''Network Interventions lists'', hours_saved_per_month = 5,
         hours_to_implement = 40, skills_required = [''SQL''],
         python_level_required = 1 \<rparr>,
      \<lparr> project.name = ''Pulse Report report generation'', hours_saved_per_month = 10,
         hours_to_implement = 80, skills_required = [''SQL'', ''APIs''],
         python_level_required = 3 \<rparr>]"

definition team :: "team_member list" where
  "team =
     [\<lparr> team_member.name = ''Kermit the Frog'', hours_available = 180,
         skills = [''SQL'', ''Excel''], python_level = 2 \<rparr>,
      \<lparr> team_member.name = ''Sweetums'', hours_available = 140,
         skills = [''Excel''], python_level = 1 \<rparr>,
      \<lparr> team_member.name = ''Dr Bunsen Honeydew'', hours_available = 160,
         skills = [''APIs'', ''SQL'', ''Excel''], python_level = 3 \<rparr>,
      \<lparr> team_member.name = ''Fozzie the Bear'', hours_available = 220,
         skills = [''SQL'', ''Excel''], python_level = 2 \<rparr>,
      \<lparr> team_member.name = ''Pepe the King Prawn'', hours_available = 120,
         skills = [''SQL'', ''Excel''], python_level = 1 \<rparr>,
      \<lparr> team_member.name = ''Rowlf the Dog'', hours_available = 140,
         skills = [''APIs'', ''SQL'', ''Excel''], python_level = 3 \<rparr>]"

section \<open>The optimisation model\<close>

text \<open>
  \<open>LpVariable.dicts\<close> returns a dictionary from each index to a binary variable. The
  variable stored under a project's name is \<open>SelectProject\<close> of that name, the one
  under a (member name, project name) pair is \<open>Assign\<close> of the pair; two equal
  indices share one dictionary entry. Every lookup the cells make uses an index the
  dictionary was built from, so a lookup is the constructor applied to the key.
\<close>

datatype lpvar = SelectProject string | Assign string string

text \<open>
  A linear expression is a list of (variable, coefficient) terms and a constant. A
  constraint keeps both sides as the source writes them (PuLP stores the difference of
  the two sides against zero, which has the same solutions).
\<close>

datatype lpexpr = LpAffineExpression "(lpvar \<times> int) list" int

datatype lpsense = LpConstraintLE | LpConstraintEQ | LpConstraintGE

record lpconstraint =
  lhs :: lpexpr
  sense :: lpsense
  rhs :: lpexpr

record lpproblem =
  objective :: "lpexpr option"
  constraints :: "(string \<times> lpconstraint) list"

fun expr_terms :: "lpexpr \<Rightarrow> (lpvar \<times> int) list" where
  "expr_terms (LpAffineExpression ts c) = ts"

fun expr_constant :: "lpexpr \<Rightarrow> int" where
  "expr_constant (LpAffineExpression ts c) = c"

definition var_expr :: "lpvar \<Rightarrow> lpexpr" where
  "var_expr v = LpAffineExpression [(v, 1)] 0"

definition var_times :: "lpvar \<Rightarrow> int \<Rightarrow> lpexpr" where
  "var_times v a = LpAffineExpression [(v, a)] 0"

definition const_expr :: "int \<Rightarrow> lpexpr" where
  "const_expr c = LpAffineExpression [] c"

definition lpSum :: "lpexpr list \<Rightarrow> lpexpr" where
  "lpSum es = LpAffineExpression (concat (map expr_terms es)) (sum_list (map expr_constant es))"

definition project_variables :: "project list \<Rightarrow> lpvar list" where
  "project_variables ps = [SelectProject (project.name p). p \<leftarrow> ps]"

definition team_project_variables :: "team_member list \<Rightarrow> project list \<Rightarrow> lpvar list" where
  "team_project_variables tms ps =
     [Assign (team_member.name tm) (project.name p). tm \<leftarrow> tms, p \<leftarrow> ps]"

text \<open>
  \<^verbatim>\<open>problem += (constraint, name)\<close> is PuLP's \<open>addConstraint\<close>. Setting the
  constraint's name replaces each of the characters \<^verbatim>\<open>-+[]\<close> and the space by an
  underscore; a name the problem already holds is refused with a \<open>PulpError\<close>, and
  the problem keeps the constraints added before the refusal.
\<close>

definition illegal_chars :: string where
  "illegal_chars = ''-+[] ''"

definition sanitise :: "string \<Rightarrow> string" where
  "sanitise n = map (\<lambda>c. if c \<in> set illegal_chars then CHR ''_'' else c) n"

definition addConstraint :: "lpproblem \<Rightarrow> string \<times> lpconstraint \<Rightarrow> error + lpproblem" where
  "addConstraint prob nc =
     (let n = sanitise (fst nc) in
      if n \<in> set (map fst (constraints prob))
      then Inl (PulpError (''overlapping constraint names: '' @ n))
      else Inr (prob\<lparr> constraints := constraints prob @ [(n, snd nc)] \<rparr>))"

text \<open>
  A run of \<^verbatim>\<open>problem += (constraint, name)\<close> statements on the global problem: it
  stops at the first exception, and returns the problem as the statements left it.
\<close>

fun add_all :: "lpproblem \<Rightarrow> (string \<times> lpconstraint) list \<Rightarrow> lpproblem \<times> error option" where
  "add_all prob [] = (prob, None)"
| "add_all prob (nc # ncs) =
     (case addConstraint prob nc of
        Inl e \<Rightarrow> (prob, Some e)
      | Inr prob' \<Rightarrow> add_all prob' ncs)"

text \<open>The objective: the hours saved per month of the selected projects.\<close>

definition total_hours_saved_objective :: "project list \<Rightarrow> lpexpr" where
  "total_hours_saved_objective ps =
     lpSum [var_times (SelectProject (project.name p)) (hours_saved_per_month p). p \<leftarrow> ps]"

text \<open>Constraint 2: a member is assigned only to a selected project.\<close>

definition only_if_project_selected ::
  "team_member list \<Rightarrow> project list \<Rightarrow> (string \<times> lpconstraint) list" where
  "only_if_project_selected tms ps =
     [(''Assign_'' @ team_member.name tm @ ''_'' @ project.name p @ ''_OnlyIfProjectSelected'',
       \<lparr> lhs = var_expr (Assign (team_member.name tm) (project.name p)),
         sense = LpConstraintLE,
         rhs = var_expr (SelectProject (project.name p)) \<rparr>). tm \<leftarrow> tms, p \<leftarrow> ps]"

text \<open>
  Constraint 3: the test of the source's \<open>if\<close>, true of a pair whose member lacks a
  required skill or the required Python level; the assignment variable of such a pair is
  set equal to zero.
\<close>

definition lacks_requirements :: "team_member \<Rightarrow> project \<Rightarrow> bool" where
  "lacks_requirements tm p =
     (\<not> set (skills_required p) \<subseteq> set (skills tm) \<or> python_level tm < python_level_required p)"

definition skill_python_level_match ::
  "project list \<Rightarrow> team_member list \<Rightarrow> (string \<times> lpconstraint) list" where
  "skill_python_level_match ps tms =
     [(''Skill_Python_Level_Match_'' @ team_member.name tm @ ''_'' @ project.name p,
       \<lparr> lhs = var_expr (Assign (team_member.name tm) (project.name p)),
         sense = LpConstraintEQ,
         rhs = const_expr 0 \<rparr>). p \<leftarrow> ps, tm \<leftarrow> tms, lacks_requirements tm p]"

text \<open>Constraint 4: the hours of a member's projects stay within the member's hours.\<close>

definition total_hours_assigned :: "team_member \<Rightarrow> project list \<Rightarrow> lpexpr" where
  "total_hours_assigned tm ps =
     lpSum [var_times (Assign (team_member.name tm) (project.name p)) (hours_to_implement p). p \<leftarrow> ps]"

definition hours_available_constraints ::
  "team_member list \<Rightarrow> project list \<Rightarrow> (string \<times> lpconstraint) list" where
  "hours_available_constraints tms ps =
     [(''Hours_Available_'' @ team_member.name tm,
       \<lparr> lhs = total_hours_assigned tm ps,
         sense = LpConstraintLE,
         rhs = const_expr (hours_available tm) \<rparr>). tm \<leftarrow> tms]"

text \<open>Constraint 5: a selected project has at least one member assigned.\<close>

definition total_team_assigned :: "project \<Rightarrow> team_member list \<Rightarrow> lpexpr" where
  "total_team_assigned p tms =
     lpSum [var_expr (Assign (team_member.name tm) (project.name p)). tm \<leftarrow> tms]"

definition team_assignment_constraints ::
  "project list \<Rightarrow> team_member list \<Rightarrow> (string \<times> lpconstraint) list" where
  "team_assignment_constraints ps tms =
     [(''Team_Assignment_'' @ project.name p,
       \<lparr> lhs = total_team_assigned p tms,
         sense = LpConstraintGE,
         rhs = var_expr (SelectProject (project.name p)) \<rparr>). p \<leftarrow> ps]"

text \<open>
  The cells of the notebook in order, as they run: the objective, then constraints 2 to
  5. The cell of constraint 1 (at most two projects at once) is commented out in the
  source, so it adds nothing.
\<close>

definition model_statements ::
  "project list \<Rightarrow> team_member list \<Rightarrow> (string \<times> lpconstraint) list" where
  "model_statements ps tms =
     only_if_project_selected tms ps @ skill_python_level_match ps tms
     @ hours_available_constraints tms ps @ team_assignment_constraints ps tms"

definition build_model :: "project list \<Rightarrow> team_member list \<Rightarrow> lpproblem \<times> error option" where
  "build_model ps tms =
     add_all \<lparr> objective = Some (total_hours_saved_objective ps), constraints = [] \<rparr>
       (model_statements ps tms)"



section \<open>Solutions of the model\<close>

text \<open>
  A solution gives every variable a value. It is feasible when every declared variable
  is 0 or 1 (category Binary) and every constraint of the problem holds.
\<close>

fun expr_value :: "(lpvar \<Rightarrow> rat) \<Rightarrow> lpexpr \<Rightarrow> rat" where
  "expr_value sol (LpAffineExpression ts c) =
     sum_list (map (\<lambda>va. of_int (snd va) * sol (fst va)) ts) + of_int c"

definition satisfies :: "(lpvar \<Rightarrow> rat) \<Rightarrow> lpconstraint \<Rightarrow> bool" where
  "satisfies sol c =
     (case sense c of
        LpConstraintLE \<Rightarrow> expr_value sol (lhs c) \<le> expr_value sol (rhs c)
      | LpConstraintEQ \<Rightarrow> expr_value sol (lhs c) = expr_value sol (rhs c)
      | LpConstraintGE \<Rightarrow> expr_value sol (lhs c) \<ge> expr_value sol (rhs c))"

definition feasible :: "lpvar list \<Rightarrow> lpproblem \<Rightarrow> (lpvar \<Rightarrow> rat) \<Rightarrow> bool" where
  "feasible vars prob sol =
     ((\<forall>v \<in> set vars. sol v = 0 \<or> sol v = 1)
      \<and> (\<forall>nc \<in> set (constraints prob). satisfies sol (snd nc)))"

definition objective_value :: "lpproblem \<Rightarrow> (lpvar \<Rightarrow> rat) \<Rightarrow> rat" where
  "objective_value prob sol =
     (case objective prob of None \<Rightarrow> 0 | Some e \<Rightarrow> expr_value sol e)"

definition optimal :: "lpvar list \<Rightarrow> lpproblem \<Rightarrow> (lpvar \<Rightarrow> rat) \<Rightarrow> bool" where
  "optimal vars prob sol =
     (feasible vars prob sol
      \<and> (\<forall>sol'. feasible vars prob sol' \<longrightarrow> objective_value prob sol' \<le> objective_value prob sol))"

text \<open>
  The solver is no part of the repository: \<^verbatim>\<open>problem.solve()\<close> hands the problem
  to the CBC solver behind PuLP. It is taken by its contract, as section 4.3 of the
  specification states it for a solver that runs to completion: the status is 1 (Optimal)
  exactly when the problem has a feasible solution, and then the \<open>varValue\<close> of every
  declared variable is its value in one optimal solution. Which optimal solution is
  returned is left open.
\<close>

definition solve :: "lpvar list \<Rightarrow> lpproblem \<Rightarrow> int \<Rightarrow> (lpvar \<Rightarrow> rat option) \<Rightarrow> bool" where
  "solve vars prob status varValue =
     (if \<exists>sol. feasible vars prob sol
      then status = 1
           \<and> (\<exists>sol. optimal vars prob sol \<and> (\<forall>v \<in> set vars. varValue v = Some (sol v)))
      else status \<noteq> 1)"

section \<open>Interpreting the result\<close>

text \<open>PuLP's table of status names.\<close>

definition LpStatus :: "int \<Rightarrow> string option" where
  "LpStatus = map_of [(0, ''Not Solved''), (1, ''Optimal''), (- 1, ''Infeasible''),
                      (- 2, ''Unbounded''), (- 3, ''Undefined'')]"

text \<open>
  The extraction loops. \<open>varValue\<close> is \<open>None\<close> for a variable the solver gave no
  value; the source compares it with the integer 1.
\<close>

fun selected_projects_loop ::
  "(lpvar \<Rightarrow> rat option) \<Rightarrow> project list \<Rightarrow> string list \<Rightarrow> string list" where
  "selected_projects_loop varValue [] selected = selected"
| "selected_projects_loop varValue (p # ps) selected =
     selected_projects_loop varValue ps
       (if varValue (SelectProject (project.name p)) = Some 1
        then selected @ [project.name p] else selected)"

definition selected_projects :: "(lpvar \<Rightarrow> rat option) \<Rightarrow> project list \<Rightarrow> string list" where
  "selected_projects varValue ps = selected_projects_loop varValue ps []"

fun assignments_inner ::
  "(lpvar \<Rightarrow> rat option) \<Rightarrow> team_member \<Rightarrow> project list \<Rightarrow> (string \<times> string) list
     \<Rightarrow> (string \<times> string) list" where
  "assignments_inner varValue tm [] assignments = assignments"
| "assignments_inner varValue tm (p # ps) assignments =
     assignments_inner varValue tm ps
       (if varValue (Assign (team_member.name tm) (project.name p)) = Some 1
        then assignments @ [(team_member.name tm, project.name p)] else assignments)"

fun assignments_loop ::
  "(lpvar \<Rightarrow> rat option) \<Rightarrow> team_member list \<Rightarrow> project list \<Rightarrow> (string \<times> string) list
     \<Rightarrow> (string \<times> string) list" where
  "assignments_loop varValue [] ps assignments = assignments"
| "assignments_loop varValue (tm # tms) ps assignments =
     assignments_loop varValue tms ps (assignments_inner varValue tm ps assignments)"

definition team_assignments ::
  "(lpvar \<Rightarrow> rat option) \<Rightarrow> team_member list \<Rightarrow> project list \<Rightarrow> (string \<times> string) list" where
  "team_assignments varValue tms ps = assignments_loop varValue tms ps []"

definition total_hours_saved :: "(lpvar \<Rightarrow> rat option) \<Rightarrow> project list \<Rightarrow> int" where
  "total_hours_saved varValue ps =
     sum_list [hours_saved_per_month p. p \<leftarrow> ps, varValue (SelectProject (project.name p)) = Some 1]"

text \<open>
  What the last cells print: the status name, the selected projects, the assignments and
  the total. The status is looked up in \<open>LpStatus\<close>; nothing else reads it.
\<close>

record summary =
  status_name :: string
  summary_selected_projects :: "string list"
  summary_team_assignments :: "(string \<times> string) list"
  summary_total_hours_saved :: int

definition results_summary ::
  "int \<Rightarrow> (lpvar \<Rightarrow> rat option) \<Rightarrow> project list \<Rightarrow> team_member list \<Rightarrow> error + summary" where
  "results_summary status varValue ps tms =
     (case LpStatus status of
        None \<Rightarrow> Inl (KeyError status)
      | Some s \<Rightarrow>
          Inr \<lparr> status_name = s,
                summary_selected_projects = selected_projects varValue ps,
                summary_team_assignments = team_assignments varValue tms ps,
                summary_total_hours_saved = total_hours_saved varValue ps \<rparr>)"

text \<open>The values the solver left in the variables in the notebook's recorded run.\<close>

definition recorded_solution :: "lpvar \<Rightarrow> rat" where
  "recorded_solution v =
     (if v \<in> set [SelectProject ''Secondary Deliverables reporting'',
                   SelectProject ''ISS'',
                   SelectProject ''Network Interventions lists'',
                   SelectProject ''Pulse Report report generation'',
                   Assign ''Dr Bunsen Honeydew'' ''Secondary Deliverables reporting'',
                   Assign ''Pepe the King Prawn'' ''ISS'',
                   Assign ''Pepe the King Prawn'' ''Network Interventions lists'',
                   Assign ''Rowlf the Dog'' ''Pulse Report report generation'']
      then 1 else 0)"

section \<open>Properties of the entities\<close>

lemma isinstance_int_iff: "isinstance v Class_int = ((\<exists>i. v = PyInt i) \<or> (\<exists>b. v = PyBool b))"
  by (cases v) simp_all

lemma isinstance_str_iff: "isinstance v Class_str = (\<exists>s. v = PyStr s)"
  by (cases v) simp_all

lemma list_all_str_map: "list_all (\<lambda>i. isinstance i Class_str) (map PyStr ss)"
  by (induction ss) simp_all

lemma list_all_str_unmap:
  "list_all (\<lambda>i. isinstance i Class_str) xs \<Longrightarrow> xs = map PyStr (map str_value xs)"
  by (induction xs) (auto simp: isinstance_str_iff)

lemma list_all_str_iff:
  "list_all (\<lambda>i. isinstance i Class_str) xs = (\<exists>ss. xs = map PyStr ss)"
  using list_all_str_map list_all_str_unmap by metis

lemma is_list_of_str_iff: "is_list_of_str v = (\<exists>ss. v = PyList (map PyStr ss))"
  by (cases v) (simp_all add: list_all_str_iff)

lemma str_value_PyStr: "str_value \<circ> PyStr = id"
  by (rule ext) simp

lemma str_items_map: "str_items (PyList (map PyStr ss)) = ss"
  by (simp add: str_value_PyStr)

lemma is_list_of_str_map: "is_list_of_str (PyList (map PyStr ss))"
  by (simp add: list_all_str_map)

lemma validate_annotations_error:
  "validate_annotations items = Inl e \<Longrightarrow> \<exists>msg. e = AssertionError msg"
  by (induction items rule: validate_annotations.induct) (auto split: if_splits)

lemma validate_project_iff:
  "(validate_annotations
      [(''name'', Plain Class_str, n), (''hours_saved_per_month'', Plain Class_int, b),
       (''hours_to_implement'', Plain Class_int, e), (''skills_required'', List_str, sk),
       (''python_level_required'', Plain Class_int, l)] = Inr ()) =
   (isinstance n Class_str \<and> isinstance b Class_int \<and> isinstance e Class_int
    \<and> is_list_of_str sk \<and> isinstance l Class_int)"
  by simp

lemma validate_member_iff:
  "(validate_annotations
      [(''name'', Plain Class_str, n), (''hours_available'', Plain Class_int, c),
       (''skills'', List_str, sk), (''python_level'', Plain Class_int, l)] = Inr ()) =
   (isinstance n Class_str \<and> isinstance c Class_int
    \<and> is_list_of_str sk \<and> isinstance l Class_int)"
  by simp

lemma Project_Inr_iff:
  "(Project n b e sk l = Inr p) =
   (isinstance n Class_str \<and> isinstance b Class_int \<and> isinstance e Class_int
    \<and> is_list_of_str sk \<and> isinstance l Class_int
    \<and> int_value l \<in> valid_levels \<and> set (str_items sk) \<subseteq> valid_skills
    \<and> p = \<lparr> project.name = str_value n, hours_saved_per_month = int_value b,
            hours_to_implement = int_value e, skills_required = str_items sk,
            python_level_required = int_value l \<rparr>)"
proof (cases "validate_annotations
      [(''name'', Plain Class_str, n), (''hours_saved_per_month'', Plain Class_int, b),
       (''hours_to_implement'', Plain Class_int, e), (''skills_required'', List_str, sk),
       (''python_level_required'', Plain Class_int, l)]")
  case (Inl err)
  then have "\<not> (isinstance n Class_str \<and> isinstance b Class_int \<and> isinstance e Class_int
    \<and> is_list_of_str sk \<and> isinstance l Class_int)"
    using validate_project_iff [of n b e sk l] by simp
  with Inl show ?thesis unfolding Project_def by auto
next
  case (Inr u)
  then have "isinstance n Class_str \<and> isinstance b Class_int \<and> isinstance e Class_int
    \<and> is_list_of_str sk \<and> isinstance l Class_int"
    using validate_project_iff [of n b e sk l] by simp
  with Inr show ?thesis unfolding Project_def by auto
qed

lemma TeamMember_Inr_iff:
  "(TeamMember n c sk l = Inr tm) =
   (isinstance n Class_str \<and> isinstance c Class_int
    \<and> is_list_of_str sk \<and> isinstance l Class_int
    \<and> int_value l \<in> valid_levels \<and> set (str_items sk) \<subseteq> valid_skills
    \<and> tm = \<lparr> team_member.name = str_value n, hours_available = int_value c,
             skills = str_items sk, python_level = int_value l \<rparr>)"
proof (cases "validate_annotations
      [(''name'', Plain Class_str, n), (''hours_available'', Plain Class_int, c),
       (''skills'', List_str, sk), (''python_level'', Plain Class_int, l)]")
  case (Inl err)
  then have "\<not> (isinstance n Class_str \<and> isinstance c Class_int
    \<and> is_list_of_str sk \<and> isinstance l Class_int)"
    using validate_member_iff [of n c sk l] by simp
  with Inl show ?thesis unfolding TeamMember_def by auto
next
  case (Inr u)
  then have "isinstance n Class_str \<and> isinstance c Class_int
    \<and> is_list_of_str sk \<and> isinstance l Class_int"
    using validate_member_iff [of n c sk l] by simp
  with Inr show ?thesis unfolding TeamMember_def by auto
qed

lemma Project_error:
  "Project n b e sk l = Inl err \<Longrightarrow> \<exists>msg. err = AssertionError msg"
  unfolding Project_def
  by (auto split: sum.splits if_splits dest: validate_annotations_error)

lemma TeamMember_error:
  "TeamMember n c sk l = Inl err \<Longrightarrow> \<exists>msg. err = AssertionError msg"
  unfolding TeamMember_def
  by (auto split: sum.splits if_splits dest: validate_annotations_error)

lemma Project_fails_iff:
  "(\<exists>msg. Project n b e sk l = Inl (AssertionError msg)) = (\<forall>p. Project n b e sk l \<noteq> Inr p)"
proof (cases "Project n b e sk l")
  case (Inl err)
  then show ?thesis using Project_error [OF Inl] by auto
next
  case (Inr p)
  then show ?thesis by auto
qed

lemma TeamMember_fails_iff:
  "(\<exists>msg. TeamMember n c sk l = Inl (AssertionError msg)) = (\<forall>tm. TeamMember n c sk l \<noteq> Inr tm)"
proof (cases "TeamMember n c sk l")
  case (Inl err)
  then show ?thesis using TeamMember_error [OF Inl] by auto
next
  case (Inr p)
  then show ?thesis by auto
qed

subsection \<open>Negative numbers\<close>

text \<open>
  Claim C3 says that a negative benefit, effort or capacity makes construction fail.
  The constructors check the class of each number and nothing about its sign: the
  following entities, with negative numbers, are constructed.
\<close>

theorem negative_numbers_counterexample:
  "Project (PyStr ''p'') (PyInt (- 5)) (PyInt (- 1)) (PyList []) (PyInt 0)
     = Inr \<lparr> project.name = ''p'', hours_saved_per_month = - 5, hours_to_implement = - 1,
             skills_required = [], python_level_required = 0 \<rparr>
   \<and> TeamMember (PyStr ''m'') (PyInt (- 1)) (PyList []) (PyInt 0)
     = Inr \<lparr> team_member.name = ''m'', hours_available = - 1, skills = [], python_level = 0 \<rparr>"
  by (simp add: Project_def TeamMember_def valid_levels_def)

text \<open>
  Claim C3, as amended: whatever the sign of the benefit, the effort and the capacity,
  construction succeeds when the skills are within the vocabulary and the level is one
  of 0 to 3, and the entity holds the numbers as given, a negative one included.
\<close>

theorem numbers_of_any_sign_accepted:
  assumes "set ss \<subseteq> {''APIs'', ''Excel'', ''SQL''}" and "l \<in> {0, 1, 2, 3}"
  shows "Project (PyStr n) (PyInt b) (PyInt e) (PyList (map PyStr ss)) (PyInt l)
           = Inr \<lparr> project.name = n, hours_saved_per_month = b, hours_to_implement = e,
                   skills_required = ss, python_level_required = l \<rparr>
         \<and> TeamMember (PyStr n) (PyInt c) (PyList (map PyStr ss)) (PyInt l)
           = Inr \<lparr> team_member.name = n, hours_available = c, skills = ss, python_level = l \<rparr>"
  using assms
  by (simp add: Project_Inr_iff TeamMember_Inr_iff is_list_of_str_map list_all_str_map
      str_value_PyStr valid_levels_def valid_skills_def)

theorem numbers_of_any_sign_accepted_witness:
  "set [''SQL''] \<subseteq> {''APIs'', ''Excel'', ''SQL''} \<and> (2::int) \<in> {0, 1, 2, 3}
   \<and> Project (PyStr ''p'') (PyInt (- 20)) (PyInt (- 160)) (PyList (map PyStr [''SQL''])) (PyInt 2)
       = Inr \<lparr> project.name = ''p'', hours_saved_per_month = - 20, hours_to_implement = - 160,
               skills_required = [''SQL''], python_level_required = 2 \<rparr>
   \<and> TeamMember (PyStr ''p'') (PyInt (- 180)) (PyList (map PyStr [''SQL''])) (PyInt 2)
       = Inr \<lparr> team_member.name = ''p'', hours_available = - 180, skills = [''SQL''],
               python_level = 2 \<rparr>"
proof -
  have h1: "set [''SQL''] \<subseteq> {''APIs'', ''Excel'', ''SQL''}" by simp
  have h2: "(2::int) \<in> {0, 1, 2, 3}" by simp
  show ?thesis
    using h1 h2 numbers_of_any_sign_accepted [OF h1 h2, of "''p''" "- 20" "- 160" "- 180"]
    by simp
qed

subsection \<open>Skills and level\<close>

text \<open>
  Claim C9: an entity that is constructed has its skills within the vocabulary
  APIs, Excel, SQL and its level among 0, 1, 2, 3 (its skills argument was a list of
  exactly these strings and its level argument had that value); and construction fails
  with an assertion error whenever the skills given are not a subset of the vocabulary,
  or the level given is an integer outside 0 to 3.
\<close>

theorem skills_and_level_validated:
  "(Project n b e sk l = Inr p \<longrightarrow>
      set (skills_required p) \<subseteq> {''APIs'', ''Excel'', ''SQL''}
      \<and> python_level_required p \<in> {0, 1, 2, 3}
      \<and> sk = PyList (map PyStr (skills_required p))
      \<and> int_value l = python_level_required p)
   \<and> (TeamMember n c sk l = Inr tm \<longrightarrow>
      set (skills tm) \<subseteq> {''APIs'', ''Excel'', ''SQL''}
      \<and> python_level tm \<in> {0, 1, 2, 3}
      \<and> sk = PyList (map PyStr (skills tm))
      \<and> int_value l = python_level tm)
   \<and> (\<not> set ss \<subseteq> {''APIs'', ''Excel'', ''SQL''} \<longrightarrow>
        (\<exists>msg. Project n b e (PyList (map PyStr ss)) l = Inl (AssertionError msg))
        \<and> (\<exists>msg. TeamMember n c (PyList (map PyStr ss)) l = Inl (AssertionError msg)))
   \<and> (i \<notin> {0, 1, 2, 3} \<longrightarrow>
        (\<exists>msg. Project n b e sk (PyInt i) = Inl (AssertionError msg))
        \<and> (\<exists>msg. TeamMember n c sk (PyInt i) = Inl (AssertionError msg)))"
proof (intro conjI impI)
  assume "Project n b e sk l = Inr p"
  then have h: "is_list_of_str sk" "int_value l \<in> valid_levels"
      "set (str_items sk) \<subseteq> valid_skills" "skills_required p = str_items sk"
      "python_level_required p = int_value l"
    by (auto simp: Project_Inr_iff)
  from h(1) obtain ss' where sk: "sk = PyList (map PyStr ss')"
    by (auto simp: is_list_of_str_iff)
  show "set (skills_required p) \<subseteq> {''APIs'', ''Excel'', ''SQL''}"
    using h by (simp add: valid_skills_def)
  show "python_level_required p \<in> {0, 1, 2, 3}"
    using h by (simp add: valid_levels_def)
  show "sk = PyList (map PyStr (skills_required p))"
    using h sk by (simp add: str_value_PyStr)
  show "int_value l = python_level_required p"
    using h by simp
next
  assume "TeamMember n c sk l = Inr tm"
  then have h: "is_list_of_str sk" "int_value l \<in> valid_levels"
      "set (str_items sk) \<subseteq> valid_skills" "skills tm = str_items sk"
      "python_level tm = int_value l"
    by (auto simp: TeamMember_Inr_iff)
  from h(1) obtain ss' where sk: "sk = PyList (map PyStr ss')"
    by (auto simp: is_list_of_str_iff)
  show "set (skills tm) \<subseteq> {''APIs'', ''Excel'', ''SQL''}"
    using h by (simp add: valid_skills_def)
  show "python_level tm \<in> {0, 1, 2, 3}"
    using h by (simp add: valid_levels_def)
  show "sk = PyList (map PyStr (skills tm))"
    using h sk by (simp add: str_value_PyStr)
  show "int_value l = python_level tm"
    using h by simp
next
  assume a: "\<not> set ss \<subseteq> {''APIs'', ''Excel'', ''SQL''}"
  then show "\<exists>msg. Project n b e (PyList (map PyStr ss)) l = Inl (AssertionError msg)"
    unfolding Project_fails_iff by (simp add: Project_Inr_iff valid_skills_def str_value_PyStr)
  from a show "\<exists>msg. TeamMember n c (PyList (map PyStr ss)) l = Inl (AssertionError msg)"
    unfolding TeamMember_fails_iff by (simp add: TeamMember_Inr_iff valid_skills_def str_value_PyStr)
next
  assume a: "i \<notin> {0, 1, 2, 3}"
  then show "\<exists>msg. Project n b e sk (PyInt i) = Inl (AssertionError msg)"
    unfolding Project_fails_iff by (simp add: Project_Inr_iff valid_levels_def)
  from a show "\<exists>msg. TeamMember n c sk (PyInt i) = Inl (AssertionError msg)"
    unfolding TeamMember_fails_iff by (simp add: TeamMember_Inr_iff valid_levels_def)
qed

theorem skills_and_level_validated_witness:
  "\<not> set [''Java''] \<subseteq> {''APIs'', ''Excel'', ''SQL''}
   \<and> (\<exists>msg. Project (PyStr ''ISS'') (PyInt 5) (PyInt 80) (PyList (map PyStr [''Java''])) (PyInt 1)
         = Inl (AssertionError msg))
   \<and> (\<exists>msg. TeamMember (PyStr ''ISS'') (PyInt 140) (PyList (map PyStr [''Java''])) (PyInt 1)
         = Inl (AssertionError msg))
   \<and> (4::int) \<notin> {0, 1, 2, 3}
   \<and> (\<exists>msg. Project (PyStr ''ISS'') (PyInt 5) (PyInt 80) (PyList [PyStr ''SQL'']) (PyInt 4)
         = Inl (AssertionError msg))
   \<and> (\<exists>msg. TeamMember (PyStr ''ISS'') (PyInt 140) (PyList [PyStr ''SQL'']) (PyInt 4)
         = Inl (AssertionError msg))"
proof -
  have h1: "\<not> set [''Java''] \<subseteq> {''APIs'', ''Excel'', ''SQL''}" by simp
  have h2: "(4::int) \<notin> {0, 1, 2, 3}" by simp
  from h1 h2 show ?thesis
    using skills_and_level_validated
      [where n = "PyStr ''ISS''" and b = "PyInt 5" and e = "PyInt 80" and c = "PyInt 140"
         and sk = "PyList [PyStr ''SQL'']" and l = "PyInt 1" and ss = "[''Java'']" and i = 4]
    by blast
qed

subsection \<open>Conformance with the annotations\<close>

text \<open>
  Claim C10 says that a numeric attribute which is not exactly of the annotated integer
  type makes construction fail. The check is \<open>isinstance\<close>, which a \<open>bool\<close>
  passes for \<open>int\<close>: the following entities, with \<open>True\<close> and \<open>False\<close> for
  their numbers, are constructed.
\<close>

theorem exact_type_counterexample:
  "TeamMember (PyStr ''m'') (PyBool True) (PyList []) (PyInt 0)
     = Inr \<lparr> team_member.name = ''m'', hours_available = 1, skills = [], python_level = 0 \<rparr>
   \<and> Project (PyStr ''p'') (PyBool True) (PyBool False) (PyList []) (PyBool True)
     = Inr \<lparr> project.name = ''p'', hours_saved_per_month = 1, hours_to_implement = 0,
             skills_required = [], python_level_required = 1 \<rparr>"
  by (simp add: Project_def TeamMember_def valid_levels_def)

text \<open>
  Claim C10, as amended: construction succeeds exactly when every attribute is an
  instance of its annotation (the name a \<open>str\<close>, each number an \<open>int\<close> or a
  \<open>bool\<close>, the skills a list of \<open>str\<close>), the level has a value among 0 to 3 and
  the skills are within the vocabulary. A float number fails, whatever its value.
\<close>

theorem construction_iff_instances:
  "((\<exists>p. Project n b e sk l = Inr p) =
      (isinstance n Class_str \<and> isinstance b Class_int \<and> isinstance e Class_int
       \<and> is_list_of_str sk \<and> isinstance l Class_int
       \<and> int_value l \<in> {0, 1, 2, 3}
       \<and> set (str_items sk) \<subseteq> {''APIs'', ''Excel'', ''SQL''}))
   \<and> ((\<exists>tm. TeamMember n c sk l = Inr tm) =
      (isinstance n Class_str \<and> isinstance c Class_int
       \<and> is_list_of_str sk \<and> isinstance l Class_int
       \<and> int_value l \<in> {0, 1, 2, 3}
       \<and> set (str_items sk) \<subseteq> {''APIs'', ''Excel'', ''SQL''}))
   \<and> (isinstance v Class_int = ((\<exists>i. v = PyInt i) \<or> (\<exists>t. v = PyBool t)))
   \<and> (isinstance v Class_str = (\<exists>s. v = PyStr s))
   \<and> (is_list_of_str v = (\<exists>ss. v = PyList (map PyStr ss)))
   \<and> (\<exists>msg. Project n (PyFloat x) e sk l = Inl (AssertionError msg))
   \<and> (\<exists>msg. Project n b (PyFloat x) sk l = Inl (AssertionError msg))
   \<and> (\<exists>msg. Project n b e sk (PyFloat x) = Inl (AssertionError msg))
   \<and> (\<exists>msg. TeamMember n (PyFloat x) sk l = Inl (AssertionError msg))
   \<and> (\<exists>msg. TeamMember n c sk (PyFloat x) = Inl (AssertionError msg))"
proof (intro conjI)
  show "(\<exists>p. Project n b e sk l = Inr p) =
      (isinstance n Class_str \<and> isinstance b Class_int \<and> isinstance e Class_int
       \<and> is_list_of_str sk \<and> isinstance l Class_int
       \<and> int_value l \<in> {0, 1, 2, 3}
       \<and> set (str_items sk) \<subseteq> {''APIs'', ''Excel'', ''SQL''})"
    by (simp add: Project_Inr_iff valid_levels_def valid_skills_def)
  show "(\<exists>tm. TeamMember n c sk l = Inr tm) =
      (isinstance n Class_str \<and> isinstance c Class_int
       \<and> is_list_of_str sk \<and> isinstance l Class_int
       \<and> int_value l \<in> {0, 1, 2, 3}
       \<and> set (str_items sk) \<subseteq> {''APIs'', ''Excel'', ''SQL''})"
    by (simp add: TeamMember_Inr_iff valid_levels_def valid_skills_def)
  show "isinstance v Class_int = ((\<exists>i. v = PyInt i) \<or> (\<exists>t. v = PyBool t))"
    by (rule isinstance_int_iff)
  show "isinstance v Class_str = (\<exists>s. v = PyStr s)"
    by (rule isinstance_str_iff)
  show "is_list_of_str v = (\<exists>ss. v = PyList (map PyStr ss))"
    by (rule is_list_of_str_iff)
  show "\<exists>msg. Project n (PyFloat x) e sk l = Inl (AssertionError msg)"
    unfolding Project_fails_iff by (simp add: Project_Inr_iff)
  show "\<exists>msg. Project n b (PyFloat x) sk l = Inl (AssertionError msg)"
    unfolding Project_fails_iff by (simp add: Project_Inr_iff)
  show "\<exists>msg. Project n b e sk (PyFloat x) = Inl (AssertionError msg)"
    unfolding Project_fails_iff by (simp add: Project_Inr_iff)
  show "\<exists>msg. TeamMember n (PyFloat x) sk l = Inl (AssertionError msg)"
    unfolding TeamMember_fails_iff by (simp add: TeamMember_Inr_iff)
  show "\<exists>msg. TeamMember n c sk (PyFloat x) = Inl (AssertionError msg)"
    unfolding TeamMember_fails_iff by (simp add: TeamMember_Inr_iff)
qed

theorem construction_iff_instances_witness:
  "(\<exists>msg. TeamMember (PyStr ''Dr Bunsen Honeydew'') (PyFloat 160)
            (PyList [PyStr ''APIs'', PyStr ''SQL'', PyStr ''Excel'']) (PyInt 3)
          = Inl (AssertionError msg))
   \<and> (\<exists>tm. TeamMember (PyStr ''Dr Bunsen Honeydew'') (PyInt 160)
            (PyList [PyStr ''APIs'', PyStr ''SQL'', PyStr ''Excel'']) (PyInt 3) = Inr tm)"
  using construction_iff_instances
    [of "PyStr ''Dr Bunsen Honeydew''" _ _
        "PyList [PyStr ''APIs'', PyStr ''SQL'', PyStr ''Excel'']" "PyInt 3" "PyInt 160" _ 160]
  by simp

section \<open>Properties of the model builder\<close>

lemma addConstraint_ok:
  "addConstraint prob nc = Inr prob' \<Longrightarrow>
     sanitise (fst nc) \<notin> set (map fst (constraints prob))
     \<and> constraints prob' = constraints prob @ [(sanitise (fst nc), snd nc)]
     \<and> objective prob' = objective prob"
  by (auto simp: addConstraint_def Let_def split: if_splits)

lemma addConstraint_error:
  "addConstraint prob nc = Inl e \<Longrightarrow>
     sanitise (fst nc) \<in> set (map fst (constraints prob))
     \<and> e = PulpError (''overlapping constraint names: '' @ sanitise (fst nc))"
  by (auto simp: addConstraint_def Let_def split: if_splits)

lemma add_all_ok:
  "add_all prob ncs = (prob', None) \<Longrightarrow>
     constraints prob' = constraints prob @ map (\<lambda>nc. (sanitise (fst nc), snd nc)) ncs
     \<and> objective prob' = objective prob"
proof (induction ncs arbitrary: prob)
  case Nil
  then show ?case by simp
next
  case (Cons nc ncs)
  show ?case
  proof (cases "addConstraint prob nc")
    case (Inl e)
    with Cons.prems show ?thesis by simp
  next
    case (Inr prob1)
    with Cons.prems have "add_all prob1 ncs = (prob', None)" by simp
    from Cons.IH [OF this] addConstraint_ok [OF Inr] show ?thesis by simp
  qed
qed

lemma add_all_error:
  "add_all prob ncs = (prob', Some e) \<Longrightarrow>
     constraints prob' \<noteq> [] \<and> (\<exists>msg. e = PulpError msg)"
proof (induction ncs arbitrary: prob)
  case Nil
  then show ?case by simp
next
  case (Cons nc ncs)
  show ?case
  proof (cases "addConstraint prob nc")
    case (Inl e')
    with Cons.prems have "prob' = prob" "e = e'" by simp_all
    with addConstraint_error [OF Inl] show ?thesis by auto
  next
    case (Inr prob1)
    with Cons.prems have "add_all prob1 ncs = (prob', Some e)" by simp
    from Cons.IH [OF this] show ?thesis .
  qed
qed

lemma add_all_ok_iff:
  "distinct (map fst (constraints prob)) \<Longrightarrow>
     (snd (add_all prob ncs) = None) =
       distinct (map fst (constraints prob) @ map (\<lambda>nc. sanitise (fst nc)) ncs)"
proof (induction ncs arbitrary: prob)
  case Nil
  then show ?case by simp
next
  case (Cons nc ncs)
  show ?case
  proof (cases "addConstraint prob nc")
    case (Inl e)
    with addConstraint_error [OF Inl] show ?thesis by auto
  next
    case (Inr prob1)
    note ok = addConstraint_ok [OF Inr]
    from ok Cons.prems have d: "distinct (map fst (constraints prob1))" by auto
    from Cons.IH [OF d] Inr ok show ?thesis by auto
  qed
qed

lemma build_model_ok:
  assumes "build_model ps tms = (prob, None)"
  shows "constraints prob = map (\<lambda>nc. (sanitise (fst nc), snd nc)) (model_statements ps tms)"
    and "objective prob = Some (total_hours_saved_objective ps)"
  using add_all_ok [OF assms [unfolded build_model_def]] by simp_all

lemma build_model_ok_iff:
  "(snd (build_model ps tms) = None) =
     distinct (map (\<lambda>nc. sanitise (fst nc)) (model_statements ps tms))"
  unfolding build_model_def using add_all_ok_iff [of "\<lparr> objective = Some (total_hours_saved_objective ps), constraints = [] \<rparr>" "model_statements ps tms"]
  by simp

lemma feasible_statement:
  assumes "build_model ps tms = (prob, None)" and "feasible vars prob sol"
    and "nc \<in> set (model_statements ps tms)"
  shows "satisfies sol (snd nc)"
proof -
  have "(sanitise (fst nc), snd nc) \<in> set (constraints prob)"
    using assms(3) by (auto simp: build_model_ok(1) [OF assms(1)] image_iff)
  with assms(2) show ?thesis by (auto simp: feasible_def)
qed

lemma expr_value_lpSum: "expr_value sol (lpSum es) = sum_list (map (expr_value sol) es)"
proof -
  have "expr_value sol (LpAffineExpression (concat (map expr_terms es)) (sum_list (map expr_constant es)))
          = sum_list (map (expr_value sol) es)"
  proof (induction es)
    case Nil
    then show ?case by simp
  next
    case (Cons e es)
    then show ?case by (cases e) simp
  qed
  then show ?thesis by (simp add: lpSum_def)
qed

lemma expr_value_simps:
  "expr_value sol (var_expr v) = sol v"
  "expr_value sol (var_times v a) = of_int a * sol v"
  "expr_value sol (const_expr c) = of_int c"
  by (simp_all add: var_expr_def var_times_def const_expr_def)

lemma feasible_only_if_selected:
  assumes "build_model ps tms = (prob, None)" and "feasible vars prob sol"
    and "tm \<in> set tms" and "p \<in> set ps"
  shows "sol (Assign (team_member.name tm) (project.name p)) \<le> sol (SelectProject (project.name p))"
proof -
  let ?nc = "(''Assign_'' @ team_member.name tm @ ''_'' @ project.name p @ ''_OnlyIfProjectSelected'',
       \<lparr> lhs = var_expr (Assign (team_member.name tm) (project.name p)),
         sense = LpConstraintLE,
         rhs = var_expr (SelectProject (project.name p)) \<rparr>)"
  have "?nc \<in> set (model_statements ps tms)"
    using assms(3,4) by (auto simp: model_statements_def only_if_project_selected_def)
  from feasible_statement [OF assms(1,2) this] show ?thesis
    by (simp add: satisfies_def expr_value_simps)
qed

lemma pinned_statement:
  assumes "tm \<in> set tms" and "p \<in> set ps" and "lacks_requirements tm p"
  shows "(''Skill_Python_Level_Match_'' @ team_member.name tm @ ''_'' @ project.name p,
       \<lparr> lhs = var_expr (Assign (team_member.name tm) (project.name p)),
         sense = LpConstraintEQ,
         rhs = const_expr 0 \<rparr>) \<in> set (model_statements ps tms)"
  using assms by (auto simp: model_statements_def skill_python_level_match_def)

lemma feasible_pinned:
  assumes "build_model ps tms = (prob, None)" and "feasible vars prob sol"
    and "tm \<in> set tms" and "p \<in> set ps" and "lacks_requirements tm p"
  shows "sol (Assign (team_member.name tm) (project.name p)) = 0"
  using feasible_statement [OF assms(1,2) pinned_statement [OF assms(3,4,5)]]
  by (simp add: satisfies_def expr_value_simps)

lemma feasible_hours:
  assumes "build_model ps tms = (prob, None)" and "feasible vars prob sol"
    and "tm \<in> set tms"
  shows "(\<Sum>p\<leftarrow>ps. of_int (hours_to_implement p) * sol (Assign (team_member.name tm) (project.name p)))
           \<le> of_int (hours_available tm)"
proof -
  let ?nc = "(''Hours_Available_'' @ team_member.name tm,
       \<lparr> lhs = total_hours_assigned tm ps,
         sense = LpConstraintLE,
         rhs = const_expr (hours_available tm) \<rparr>)"
  have "?nc \<in> set (model_statements ps tms)"
    using assms(3) by (auto simp: model_statements_def hours_available_constraints_def)
  from feasible_statement [OF assms(1,2) this] show ?thesis
    by (simp add: satisfies_def expr_value_simps total_hours_assigned_def expr_value_lpSum comp_def)
qed

lemma feasible_staffed:
  assumes "build_model ps tms = (prob, None)" and "feasible vars prob sol"
    and "p \<in> set ps"
  shows "sol (SelectProject (project.name p))
           \<le> (\<Sum>tm\<leftarrow>tms. sol (Assign (team_member.name tm) (project.name p)))"
proof -
  let ?nc = "(''Team_Assignment_'' @ project.name p,
       \<lparr> lhs = total_team_assigned p tms,
         sense = LpConstraintGE,
         rhs = var_expr (SelectProject (project.name p)) \<rparr>)"
  have "?nc \<in> set (model_statements ps tms)"
    using assms(3) by (auto simp: model_statements_def team_assignment_constraints_def)
  from feasible_statement [OF assms(1,2) this] show ?thesis
    by (simp add: satisfies_def expr_value_simps total_team_assigned_def expr_value_lpSum comp_def)
qed

lemma objective_value_build:
  assumes "build_model ps tms = (prob, None)"
  shows "objective_value prob sol
           = (\<Sum>p\<leftarrow>ps. of_int (hours_saved_per_month p) * sol (SelectProject (project.name p)))"
  by (simp add: objective_value_def build_model_ok(2) [OF assms] total_hours_saved_objective_def
      expr_value_lpSum expr_value_simps comp_def)








subsection \<open>Duplicate names\<close>

text \<open>
  Claim C4 says that building fails with a configuration error before any constraint is
  emitted when names are duplicated. The cells check nothing before they add
  constraints: with the project ISS listed twice and one member, the first constraint is
  added to the problem, and the run stops at the second, with PuLP's error for a
  constraint name that is already there.
\<close>

theorem duplicate_names_counterexample:
  "build_model
     [\<lparr> project.name = ''ISS'', hours_saved_per_month = 5, hours_to_implement = 80,
        skills_required = [''SQL''], python_level_required = 1 \<rparr>,
      \<lparr> project.name = ''ISS'', hours_saved_per_month = 5, hours_to_implement = 80,
        skills_required = [''SQL''], python_level_required = 1 \<rparr>]
     [\<lparr> team_member.name = ''Kermit the Frog'', hours_available = 180,
        skills = [''SQL'', ''Excel''], python_level = 2 \<rparr>] =
     (\<lparr> objective = Some (LpAffineExpression [(SelectProject ''ISS'', 5), (SelectProject ''ISS'', 5)] 0),
        constraints =
          [(''Assign_Kermit_the_Frog_ISS_OnlyIfProjectSelected'',
            \<lparr> lhs = LpAffineExpression [(Assign ''Kermit the Frog'' ''ISS'', 1)] 0,
              sense = LpConstraintLE,
              rhs = LpAffineExpression [(SelectProject ''ISS'', 1)] 0 \<rparr>)] \<rparr>,
      Some (PulpError ''overlapping constraint names: Assign_Kermit_the_Frog_ISS_OnlyIfProjectSelected''))"
  by code_simp

lemma names_not_distinct:
  assumes "\<not> distinct (map project.name ps) \<or> \<not> distinct (map team_member.name tms)"
  shows "\<not> distinct (map (\<lambda>nc. sanitise (fst nc)) (model_statements ps tms))"
proof
  assume d: "distinct (map (\<lambda>nc. sanitise (fst nc)) (model_statements ps tms))"
  have h: "distinct (map (\<lambda>nc. sanitise (fst nc)) (hours_available_constraints tms ps))"
    and t: "distinct (map (\<lambda>nc. sanitise (fst nc)) (team_assignment_constraints ps tms))"
    using d by (simp_all add: model_statements_def)
  have "map (\<lambda>nc. sanitise (fst nc)) (hours_available_constraints tms ps)
          = map (\<lambda>n. sanitise (''Hours_Available_'' @ n)) (map team_member.name tms)"
    by (simp add: hours_available_constraints_def comp_def)
  with h have 1: "distinct (map team_member.name tms)"
    by (simp add: distinct_map del: map_map)
  have "map (\<lambda>nc. sanitise (fst nc)) (team_assignment_constraints ps tms)
          = map (\<lambda>n. sanitise (''Team_Assignment_'' @ n)) (map project.name ps)"
    by (simp add: team_assignment_constraints_def comp_def)
  with t have 2: "distinct (map project.name ps)"
    by (simp add: distinct_map del: map_map)
  from 1 2 assms show False by blast
qed

text \<open>
  Claim C4, as amended: the build takes the projects and the members only (it has no
  bound on concurrent projects to reject), and when the project names or the member
  names contain a duplicate it fails with PuLP's error for an overlapping constraint
  name, raised when a name is added a second time: the problem then already holds at
  least one constraint.
\<close>

theorem duplicate_names_fail_late:
  assumes "\<not> distinct (map project.name ps) \<or> \<not> distinct (map team_member.name tms)"
  shows "\<exists>prob msg. build_model ps tms = (prob, Some (PulpError msg)) \<and> constraints prob \<noteq> []"
proof -
  have "snd (build_model ps tms) \<noteq> None"
    using names_not_distinct [OF assms] by (simp add: build_model_ok_iff)
  then obtain prob e where b: "build_model ps tms = (prob, Some e)"
    by (cases "build_model ps tms") auto
  from add_all_error [OF b [unfolded build_model_def]] b show ?thesis by auto
qed

theorem duplicate_names_fail_late_witness:
  "\<not> distinct (map project.name [projects ! 2, projects ! 2])
   \<and> (\<exists>prob msg. build_model [projects ! 2, projects ! 2] [team ! 0] = (prob, Some (PulpError msg))
         \<and> constraints prob \<noteq> [])"
proof -
  have d: "\<not> distinct (map project.name [projects ! 2, projects ! 2])" by simp
  then have h: "\<not> distinct (map project.name [projects ! 2, projects ! 2])
      \<or> \<not> distinct (map team_member.name [team ! 0])" by simp
  from d duplicate_names_fail_late [OF h] show ?thesis by blast
qed

section \<open>Properties of the result interpretation\<close>

lemma concat_map_if:
  "concat (map (\<lambda>x. if P x then [f x] else []) xs) = map f (filter P xs)"
  by (induction xs) simp_all

lemma total_hours_saved_eq:
  "total_hours_saved varValue ps =
     (\<Sum>p\<leftarrow>filter (\<lambda>p. varValue (SelectProject (project.name p)) = Some 1) ps.
        hours_saved_per_month p)"
  by (simp add: total_hours_saved_def concat_map_if)

lemma selected_projects_loop_eq:
  "selected_projects_loop varValue ps selected =
     selected @ [project.name p. p \<leftarrow> ps, varValue (SelectProject (project.name p)) = Some 1]"
  by (induction ps arbitrary: selected) simp_all

lemma selected_projects_eq:
  "selected_projects varValue ps =
     [project.name p. p \<leftarrow> ps, varValue (SelectProject (project.name p)) = Some 1]"
  by (simp add: selected_projects_def selected_projects_loop_eq)

lemma assignments_inner_eq:
  "assignments_inner varValue tm ps assignments =
     assignments @ [(team_member.name tm, project.name p). p \<leftarrow> ps,
                     varValue (Assign (team_member.name tm) (project.name p)) = Some 1]"
  by (induction ps arbitrary: assignments) simp_all

lemma assignments_loop_eq:
  "assignments_loop varValue tms ps assignments =
     assignments @ [(team_member.name tm, project.name p). tm \<leftarrow> tms, p \<leftarrow> ps,
                     varValue (Assign (team_member.name tm) (project.name p)) = Some 1]"
  by (induction tms arbitrary: assignments) (simp_all add: assignments_inner_eq)

lemma team_assignments_eq:
  "team_assignments varValue tms ps =
     [(team_member.name tm, project.name p). tm \<leftarrow> tms, p \<leftarrow> ps,
        varValue (Assign (team_member.name tm) (project.name p)) = Some 1]"
  by (simp add: team_assignments_def assignments_loop_eq)

lemma in_selected_projects:
  "(n \<in> set (selected_projects varValue ps)) =
     (\<exists>p \<in> set ps. project.name p = n \<and> varValue (SelectProject n) = Some 1)"
  by (auto simp: selected_projects_eq)

lemma in_team_assignments:
  "((m, n) \<in> set (team_assignments varValue tms ps)) =
     ((\<exists>tm \<in> set tms. team_member.name tm = m) \<and> (\<exists>p \<in> set ps. project.name p = n)
      \<and> varValue (Assign m n) = Some 1)"
  by (auto simp: team_assignments_eq)

subsection \<open>Exact comparison with 1\<close>

text \<open>
  Claim C5 says that a value above 0.5, such as 0.999999, counts as selected. The
  extraction compares the value with 1 for equality: when every variable has the value
  0.999999, no project is selected, no member is assigned and the total is 0.
\<close>

theorem threshold_counterexample:
  "selected_projects (\<lambda>v. Some (999999 / 1000000)) projects = []
   \<and> team_assignments (\<lambda>v. Some (999999 / 1000000)) team projects = []
   \<and> total_hours_saved (\<lambda>v. Some (999999 / 1000000)) projects = 0"
  by (simp add: selected_projects_eq team_assignments_eq total_hours_saved_eq)

text \<open>
  Claim C5, as amended: a project is selected, and a pair is an assignment, exactly when
  the value of its variable equals 1; the total adds the hours saved of the projects
  whose variable equals 1. No rounding or threshold is applied.
\<close>

theorem selected_iff_exactly_one:
  "((n \<in> set (selected_projects varValue ps)) =
      (\<exists>p \<in> set ps. project.name p = n \<and> varValue (SelectProject n) = Some 1))
   \<and> (((m, n) \<in> set (team_assignments varValue tms ps)) =
      ((\<exists>tm \<in> set tms. team_member.name tm = m) \<and> (\<exists>p \<in> set ps. project.name p = n)
       \<and> varValue (Assign m n) = Some 1))
   \<and> total_hours_saved varValue ps =
       (\<Sum>p\<leftarrow>filter (\<lambda>p. varValue (SelectProject (project.name p)) = Some 1) ps.
          hours_saved_per_month p)"
  by (simp add: in_selected_projects in_team_assignments total_hours_saved_eq)

theorem selected_iff_exactly_one_witness:
  "(''ISS'' \<in> set (selected_projects ((\<lambda>v. Some (999999 / 1000000))(SelectProject ''ISS'' := Some 1)) projects))
   \<and> (''Network Interventions lists''
        \<notin> set (selected_projects ((\<lambda>v. Some (999999 / 1000000))(SelectProject ''ISS'' := Some 1)) projects))"
  using selected_iff_exactly_one
    [of "''ISS''" "(\<lambda>v. Some (999999 / 1000000))(SelectProject ''ISS'' := Some 1)" projects]
    selected_iff_exactly_one
    [of "''Network Interventions lists''" "(\<lambda>v. Some (999999 / 1000000))(SelectProject ''ISS'' := Some 1)" projects]
  by (simp add: projects_def)

subsection \<open>The status is not consulted\<close>

text \<open>
  Claim C6 says that a status other than Optimal yields a report with the status only.
  The extraction takes the status and the variable values as they are and never reads
  the status: given status -1 (Infeasible) and variables that hold the values of the
  recorded run, the summary carries the four selected projects, the four assignments and
  the total 40.
\<close>

theorem status_not_checked_counterexample:
  "results_summary (- 1) (Some \<circ> recorded_solution) projects team =
     Inr \<lparr> status_name = ''Infeasible'',
           summary_selected_projects =
             [''Secondary Deliverables reporting'', ''ISS'', ''Network Interventions lists'',
              ''Pulse Report report generation''],
           summary_team_assignments =
             [(''Dr Bunsen Honeydew'', ''Secondary Deliverables reporting''),
              (''Pepe the King Prawn'', ''ISS''),
              (''Pepe the King Prawn'', ''Network Interventions lists''),
              (''Rowlf the Dog'', ''Pulse Report report generation'')],
           summary_total_hours_saved = 40 \<rparr>"
  by code_simp

text \<open>
  Claim C6, as amended: whatever the status, the summary carries the selected projects,
  the assignments and the total computed from the variable values; it differs from the
  summary under status Optimal in the status name only.
\<close>

theorem summary_independent_of_status:
  assumes "results_summary status varValue ps tms = Inr r"
  shows "results_summary 1 varValue ps tms = Inr (r\<lparr> status_name := ''Optimal'' \<rparr>)
         \<and> LpStatus status = Some (status_name r)
         \<and> summary_selected_projects r = selected_projects varValue ps
         \<and> summary_team_assignments r = team_assignments varValue tms ps
         \<and> summary_total_hours_saved r = total_hours_saved varValue ps"
proof -
  from assms obtain s where s: "LpStatus status = Some s"
    and r: "r = \<lparr> status_name = s,
                  summary_selected_projects = selected_projects varValue ps,
                  summary_team_assignments = team_assignments varValue tms ps,
                  summary_total_hours_saved = total_hours_saved varValue ps \<rparr>"
    by (auto simp: results_summary_def split: option.splits)
  have "LpStatus 1 = Some ''Optimal''" by (simp add: LpStatus_def)
  with s r show ?thesis by (simp add: results_summary_def)
qed

theorem summary_independent_of_status_witness:
  "results_summary (- 1) (Some \<circ> recorded_solution) projects team
     = Inr \<lparr> status_name = ''Infeasible'',
             summary_selected_projects = selected_projects (Some \<circ> recorded_solution) projects,
             summary_team_assignments = team_assignments (Some \<circ> recorded_solution) team projects,
             summary_total_hours_saved = total_hours_saved (Some \<circ> recorded_solution) projects \<rparr>
   \<and> results_summary 1 (Some \<circ> recorded_solution) projects team
     = Inr \<lparr> status_name = ''Optimal'',
             summary_selected_projects = selected_projects (Some \<circ> recorded_solution) projects,
             summary_team_assignments = team_assignments (Some \<circ> recorded_solution) team projects,
             summary_total_hours_saved = total_hours_saved (Some \<circ> recorded_solution) projects \<rparr>"
proof -
  have h: "results_summary (- 1) (Some \<circ> recorded_solution) projects team
     = Inr \<lparr> status_name = ''Infeasible'',
             summary_selected_projects = selected_projects (Some \<circ> recorded_solution) projects,
             summary_team_assignments = team_assignments (Some \<circ> recorded_solution) team projects,
             summary_total_hours_saved = total_hours_saved (Some \<circ> recorded_solution) projects \<rparr>"
    by (simp add: results_summary_def LpStatus_def)
  from h summary_independent_of_status [OF h] show ?thesis by simp
qed

section \<open>Properties of feasible solutions\<close>

lemma assign_var_declared:
  "tm \<in> set tms \<Longrightarrow> p \<in> set ps \<Longrightarrow>
   Assign (team_member.name tm) (project.name p) \<in> set (team_project_variables tms ps)"
  by (auto simp: team_project_variables_def)

lemma select_var_declared:
  "p \<in> set ps \<Longrightarrow> SelectProject (project.name p) \<in> set (project_variables ps)"
  by (auto simp: project_variables_def)

lemma feasible_binary:
  "feasible vars prob sol \<Longrightarrow> v \<in> set vars \<Longrightarrow> sol v = 0 \<or> sol v = 1"
  by (simp add: feasible_def)

lemma binary_weighted_sum:
  assumes "\<forall>x \<in> set xs. s x = 0 \<or> s x = (1::rat)"
  shows "(\<Sum>x\<leftarrow>xs. of_int (h x) * s x) = of_int (\<Sum>x\<leftarrow>filter (\<lambda>x. s x = 1) xs. h x)"
  using assms by (induction xs) auto

lemma term_le_sum_list:
  fixes f :: "'a \<Rightarrow> rat"
  assumes "\<forall>x \<in> set xs. 0 \<le> f x" and "x \<in> set xs"
  shows "f x \<le> (\<Sum>y\<leftarrow>xs. f y)"
  using assms
proof (induction xs)
  case Nil
  then show ?case by simp
next
  case (Cons y ys)
  have nn: "0 \<le> (\<Sum>z\<leftarrow>ys. f z)"
    using Cons.prems(1) by (intro sum_list_nonneg) auto
  show ?case
  proof (cases "x = y")
    case True
    with nn show ?thesis by simp
  next
    case False
    with Cons.prems have "x \<in> set ys" by simp
    with Cons.IH Cons.prems(1) have "f x \<le> (\<Sum>z\<leftarrow>ys. f z)" by simp
    moreover have "0 \<le> f y" using Cons.prems(1) by simp
    ultimately show ?thesis by simp
  qed
qed

lemma over_capacity_unassigned:
  assumes build: "build_model ps tms = (prob, None)"
    and feas: "feasible (project_variables ps @ team_project_variables tms ps) prob sol"
    and tm: "tm \<in> set tms" and p: "p \<in> set ps"
    and nonneg: "\<forall>q \<in> set ps. 0 \<le> hours_to_implement q"
    and over: "hours_available tm < hours_to_implement p"
  shows "sol (Assign (team_member.name tm) (project.name p)) = 0"
proof (rule ccontr)
  let ?s = "\<lambda>q. sol (Assign (team_member.name tm) (project.name q))"
  let ?f = "\<lambda>q. of_int (hours_to_implement q) * ?s q"
  assume "?s p \<noteq> 0"
  have bin: "\<forall>q \<in> set ps. ?s q = 0 \<or> ?s q = 1"
    using feasible_binary [OF feas] assign_var_declared [OF tm] by simp
  with \<open>?s p \<noteq> 0\<close> p have one: "?s p = 1" by blast
  have "\<forall>q \<in> set ps. 0 \<le> ?f q"
  proof
    fix q assume q: "q \<in> set ps"
    with bin have "0 \<le> ?s q" by fastforce
    moreover have "(0::rat) \<le> of_int (hours_to_implement q)" using nonneg q by simp
    ultimately show "0 \<le> ?f q" by simp
  qed
  from term_le_sum_list [of ps ?f, OF this p] have "?f p \<le> (\<Sum>q\<leftarrow>ps. ?f q)" .
  also have "\<dots> \<le> of_int (hours_available tm)" by (rule feasible_hours [OF build feas tm])
  finally have "(of_int (hours_to_implement p) :: rat) \<le> of_int (hours_available tm)"
    using one by simp
  then have "hours_to_implement p \<le> hours_available tm" by simp
  with over show False by simp
qed

lemma unstaffable_unselected:
  assumes build: "build_model ps tms = (prob, None)"
    and feas: "feasible (project_variables ps @ team_project_variables tms ps) prob sol"
    and p: "p \<in> set ps"
    and nonneg: "\<forall>q \<in> set ps. 0 \<le> hours_to_implement q"
    and nobody: "\<forall>tm \<in> set tms. lacks_requirements tm p \<or> hours_available tm < hours_to_implement p"
  shows "sol (SelectProject (project.name p)) = 0"
proof -
  have zero: "\<forall>tm \<in> set tms. sol (Assign (team_member.name tm) (project.name p)) = 0"
  proof
    fix tm assume tm: "tm \<in> set tms"
    with nobody have "lacks_requirements tm p \<or> hours_available tm < hours_to_implement p" by simp
    then show "sol (Assign (team_member.name tm) (project.name p)) = 0"
    proof
      assume "lacks_requirements tm p"
      then show ?thesis by (rule feasible_pinned [OF build feas tm p])
    next
      assume "hours_available tm < hours_to_implement p"
      then show ?thesis by (rule over_capacity_unassigned [OF build feas tm p nonneg])
    qed
  qed
  have "(\<Sum>tm\<leftarrow>tms. sol (Assign (team_member.name tm) (project.name p))) = (\<Sum>tm\<leftarrow>tms. 0)"
    using zero by (intro arg_cong [where f = sum_list] map_cong) simp_all
  then have "(\<Sum>tm\<leftarrow>tms. sol (Assign (team_member.name tm) (project.name p))) = 0" by simp
  with feasible_staffed [OF build feas p] have "sol (SelectProject (project.name p)) \<le> 0" by simp
  moreover have "sol (SelectProject (project.name p)) = 0 \<or> sol (SelectProject (project.name p)) = 1"
    using feasible_binary [OF feas] select_var_declared [OF p] by simp
  ultimately show ?thesis by auto
qed



section \<open>The recorded run\<close>

lemma projects_constructed:
  "[Project (PyStr ''Secondary Deliverables reporting'') (PyInt 20) (PyInt 160)
      (PyList [PyStr ''SQL'', PyStr ''Excel'']) (PyInt 2),
    Project (PyStr ''I&M Work Order generation'') (PyInt 40) (PyInt 200)
      (PyList [PyStr ''SQL'', PyStr ''Excel'', PyStr ''APIs'']) (PyInt 1),
    Project (PyStr ''ISS'') (PyInt 5) (PyInt 80) (PyList [PyStr ''SQL'']) (PyInt 1),
    Project (PyStr ''Network Interventions lists'') (PyInt 5) (PyInt 40)
      (PyList [PyStr ''SQL'']) (PyInt 1),
    Project (PyStr ''Pulse Report report generation'') (PyInt 10) (PyInt 80)
      (PyList [PyStr ''SQL'', PyStr ''APIs'']) (PyInt 3)] = map Inr projects"
  by (simp add: Project_def projects_def valid_levels_def valid_skills_def)

lemma team_constructed:
  "[TeamMember (PyStr ''Kermit the Frog'') (PyInt 180) (PyList [PyStr ''SQL'', PyStr ''Excel'']) (PyInt 2),
    TeamMember (PyStr ''Sweetums'') (PyInt 140) (PyList [PyStr ''Excel'']) (PyInt 1),
    TeamMember (PyStr ''Dr Bunsen Honeydew'') (PyInt 160)
      (PyList [PyStr ''APIs'', PyStr ''SQL'', PyStr ''Excel'']) (PyInt 3),
    TeamMember (PyStr ''Fozzie the Bear'') (PyInt 220) (PyList [PyStr ''SQL'', PyStr ''Excel'']) (PyInt 2),
    TeamMember (PyStr ''Pepe the King Prawn'') (PyInt 120) (PyList [PyStr ''SQL'', PyStr ''Excel'']) (PyInt 1),
    TeamMember (PyStr ''Rowlf the Dog'') (PyInt 140)
      (PyList [PyStr ''APIs'', PyStr ''SQL'', PyStr ''Excel'']) (PyInt 3)] = map Inr team"
  by (simp add: TeamMember_def team_def valid_levels_def valid_skills_def)

lemma reference_build: "build_model projects team = (fst (build_model projects team), None)"
proof -
  have "snd (build_model projects team) = None" by code_simp
  then show ?thesis by (simp add: prod_eq_iff)
qed

lemma recorded_feasible:
  "feasible (project_variables projects @ team_project_variables team projects)
     (fst (build_model projects team)) recorded_solution"
  by code_simp

lemma reference_objective:
  "objective_value (fst (build_model projects team)) sol =
     20 * sol (SelectProject ''Secondary Deliverables reporting'')
     + 40 * sol (SelectProject ''I&M Work Order generation'')
     + 5 * sol (SelectProject ''ISS'')
     + 5 * sol (SelectProject ''Network Interventions lists'')
     + 10 * sol (SelectProject ''Pulse Report report generation'')"
  unfolding objective_value_build [OF reference_build] by (simp add: projects_def)

lemma reference_select_binary:
  assumes "feasible (project_variables projects @ team_project_variables team projects)
     (fst (build_model projects team)) sol"
  shows "\<forall>p \<in> set projects. sol (SelectProject (project.name p)) = 0 \<or> sol (SelectProject (project.name p)) = 1"
  using feasible_binary [OF assms] select_var_declared by simp

lemma reference_work_orders_unselected:
  assumes "feasible (project_variables projects @ team_project_variables team projects)
     (fst (build_model projects team)) sol"
  shows "sol (SelectProject ''I&M Work Order generation'') = 0"
proof -
  have p: "projects ! 1 \<in> set projects" by (simp add: projects_def)
  have nonneg: "\<forall>q \<in> set projects. 0 \<le> hours_to_implement q" by (simp add: projects_def)
  have nobody: "\<forall>tm \<in> set team. lacks_requirements tm (projects ! 1)
                   \<or> hours_available tm < hours_to_implement (projects ! 1)"
    by (simp add: team_def projects_def lacks_requirements_def)
  from unstaffable_unselected [OF reference_build assms p nonneg nobody]
  show ?thesis by (simp add: projects_def)
qed

lemma reference_objective_bound:
  assumes "feasible (project_variables projects @ team_project_variables team projects)
     (fst (build_model projects team)) sol"
  shows "objective_value (fst (build_model projects team)) sol \<le> 40"
proof -
  from reference_select_binary [OF assms]
  have "sol (SelectProject ''Secondary Deliverables reporting'') \<le> 1"
    "sol (SelectProject ''ISS'') \<le> 1"
    "sol (SelectProject ''Network Interventions lists'') \<le> 1"
    "sol (SelectProject ''Pulse Report report generation'') \<le> 1"
    by (auto simp: projects_def)
  with reference_work_orders_unselected [OF assms] show ?thesis
    unfolding reference_objective by simp
qed

lemma recorded_objective: "objective_value (fst (build_model projects team)) recorded_solution = 40"
  unfolding reference_objective by (simp add: recorded_solution_def)

lemma recorded_optimal:
  "optimal (project_variables projects @ team_project_variables team projects)
     (fst (build_model projects team)) recorded_solution"
  unfolding optimal_def using recorded_feasible reference_objective_bound recorded_objective by simp

lemma reference_optimal_selection:
  assumes "optimal (project_variables projects @ team_project_variables team projects)
     (fst (build_model projects team)) sol"
  shows "sol (SelectProject ''Secondary Deliverables reporting'') = 1
         \<and> sol (SelectProject ''I&M Work Order generation'') = 0
         \<and> sol (SelectProject ''ISS'') = 1
         \<and> sol (SelectProject ''Network Interventions lists'') = 1
         \<and> sol (SelectProject ''Pulse Report report generation'') = 1"
proof -
  from assms have feas: "feasible (project_variables projects @ team_project_variables team projects)
     (fst (build_model projects team)) sol"
    and best: "objective_value (fst (build_model projects team)) recorded_solution
                 \<le> objective_value (fst (build_model projects team)) sol"
    using recorded_feasible by (simp_all add: optimal_def)
  let ?s1 = "sol (SelectProject ''Secondary Deliverables reporting'')"
  let ?s2 = "sol (SelectProject ''I&M Work Order generation'')"
  let ?s3 = "sol (SelectProject ''ISS'')"
  let ?s4 = "sol (SelectProject ''Network Interventions lists'')"
  let ?s5 = "sol (SelectProject ''Pulse Report report generation'')"
  from reference_select_binary [OF feas]
  have b1: "?s1 = 0 \<or> ?s1 = 1" and b3: "?s3 = 0 \<or> ?s3 = 1"
    and b4: "?s4 = 0 \<or> ?s4 = 1" and b5: "?s5 = 0 \<or> ?s5 = 1"
    by (simp_all add: projects_def)
  have z: "?s2 = 0" by (rule reference_work_orders_unselected [OF feas])
  from best have "40 \<le> objective_value (fst (build_model projects team)) sol"
    by (simp only: recorded_objective)
  with z have ge: "40 \<le> 20 * ?s1 + 5 * ?s3 + 5 * ?s4 + 10 * ?s5"
    unfolding reference_objective by simp
  have le: "?s1 \<le> 1" "?s3 \<le> 1" "?s4 \<le> 1" "?s5 \<le> 1" using b1 b3 b4 b5 by auto
  have "?s1 = 1" using b1 ge le by linarith
  moreover have "?s3 = 1" using b3 ge le by linarith
  moreover have "?s4 = 1" using b4 ge le by linarith
  moreover have "?s5 = 1" using b5 ge le by linarith
  ultimately show ?thesis using z by simp
qed

lemma recorded_values:
  "\<forall>v \<in> set (project_variables projects @ team_project_variables team projects).
     (Some \<circ> recorded_solution) v = Some (recorded_solution v)"
  by simp

lemma recorded_selected:
  "selected_projects (Some \<circ> recorded_solution) projects =
     [''Secondary Deliverables reporting'', ''ISS'', ''Network Interventions lists'',
      ''Pulse Report report generation'']"
  by code_simp

lemma recorded_assignments:
  "team_assignments (Some \<circ> recorded_solution) team projects =
     [(''Dr Bunsen Honeydew'', ''Secondary Deliverables reporting''),
      (''Pepe the King Prawn'', ''ISS''),
      (''Pepe the King Prawn'', ''Network Interventions lists''),
      (''Rowlf the Dog'', ''Pulse Report report generation'')]"
  by code_simp

lemma recorded_total: "total_hours_saved (Some \<circ> recorded_solution) projects = 40"
  by code_simp

lemma recorded_solve:
  "solve (project_variables projects @ team_project_variables team projects)
     (fst (build_model projects team)) 1 (Some \<circ> recorded_solution)"
proof -
  have "\<exists>sol. feasible (project_variables projects @ team_project_variables team projects)
     (fst (build_model projects team)) sol"
    using recorded_feasible by blast
  moreover have "\<exists>sol. optimal (project_variables projects @ team_project_variables team projects)
       (fst (build_model projects team)) sol
     \<and> (\<forall>v \<in> set (project_variables projects @ team_project_variables team projects).
           (Some \<circ> recorded_solution) v = Some (sol v))"
    using recorded_optimal recorded_values by blast
  ultimately show ?thesis by (simp add: solve_def)
qed

section \<open>Qualification and capacity\<close>

text \<open>
  Claim C7: when the model was built and the variable values are a feasible solution of
  it, every emitted assignment pair names a member and a project of the input, and every
  member and project so named satisfy the qualification requirement (the project's
  required skills are among the member's skills and the member's level is at least the
  required level). The model achieves this by pinning: for every member and project that
  fail the requirement, the assignment variable is declared, the problem holds the
  equality constraint of that variable with 0, and the solution gives it 0.
\<close>

theorem emitted_assignments_qualified:
  assumes build: "build_model ps tms = (prob, None)"
    and feas: "feasible (project_variables ps @ team_project_variables tms ps) prob sol"
    and vals: "\<forall>v \<in> set (project_variables ps @ team_project_variables tms ps). varValue v = Some (sol v)"
  shows "(\<forall>mn \<in> set (team_assignments varValue tms ps).
            (\<exists>tm \<in> set tms. \<exists>p \<in> set ps. team_member.name tm = fst mn \<and> project.name p = snd mn)
            \<and> (\<forall>tm \<in> set tms. \<forall>p \<in> set ps.
                  team_member.name tm = fst mn \<and> project.name p = snd mn \<longrightarrow>
                    set (skills_required p) \<subseteq> set (skills tm)
                    \<and> python_level_required p \<le> python_level tm))
         \<and> (\<forall>tm \<in> set tms. \<forall>p \<in> set ps.
               \<not> set (skills_required p) \<subseteq> set (skills tm) \<or> python_level tm < python_level_required p \<longrightarrow>
                 Assign (team_member.name tm) (project.name p) \<in> set (team_project_variables tms ps)
                 \<and> (sanitise (''Skill_Python_Level_Match_'' @ team_member.name tm @ ''_'' @ project.name p),
                     \<lparr> lhs = var_expr (Assign (team_member.name tm) (project.name p)),
                       sense = LpConstraintEQ,
                       rhs = const_expr 0 \<rparr>) \<in> set (constraints prob)
                 \<and> sol (Assign (team_member.name tm) (project.name p)) = 0)"
proof (intro conjI ballI impI)
  fix mn assume mn: "mn \<in> set (team_assignments varValue tms ps)"
  then have "(fst mn, snd mn) \<in> set (team_assignments varValue tms ps)" by simp
  then have one: "varValue (Assign (fst mn) (snd mn)) = Some 1"
    and ex: "\<exists>tm \<in> set tms. team_member.name tm = fst mn" "\<exists>p \<in> set ps. project.name p = snd mn"
    unfolding in_team_assignments by simp_all
  from ex show "\<exists>tm \<in> set tms. \<exists>p \<in> set ps. team_member.name tm = fst mn \<and> project.name p = snd mn"
    by blast
  fix tm p
  assume tm: "tm \<in> set tms" and p: "p \<in> set ps"
    and names: "team_member.name tm = fst mn \<and> project.name p = snd mn"
  have "varValue (Assign (team_member.name tm) (project.name p))
          = Some (sol (Assign (team_member.name tm) (project.name p)))"
    using vals assign_var_declared [OF tm p] by simp
  with one names have s1: "sol (Assign (team_member.name tm) (project.name p)) = 1" by simp
  have "\<not> lacks_requirements tm p"
  proof
    assume "lacks_requirements tm p"
    from feasible_pinned [OF build feas tm p this] s1 show False by simp
  qed
  then have q: "set (skills_required p) \<subseteq> set (skills tm) \<and> python_level_required p \<le> python_level tm"
    by (auto simp: lacks_requirements_def)
  from q show "set (skills_required p) \<subseteq> set (skills tm)" by simp
  from q show "python_level_required p \<le> python_level tm" by simp
next
  fix tm p
  assume tm: "tm \<in> set tms" and p: "p \<in> set ps"
    and "\<not> set (skills_required p) \<subseteq> set (skills tm) \<or> python_level tm < python_level_required p"
  then have l: "lacks_requirements tm p" by (simp add: lacks_requirements_def)
  show "Assign (team_member.name tm) (project.name p) \<in> set (team_project_variables tms ps)"
    by (rule assign_var_declared [OF tm p])
  from pinned_statement [OF tm p l]
  show "(sanitise (''Skill_Python_Level_Match_'' @ team_member.name tm @ ''_'' @ project.name p),
         \<lparr> lhs = var_expr (Assign (team_member.name tm) (project.name p)),
           sense = LpConstraintEQ,
           rhs = const_expr 0 \<rparr>) \<in> set (constraints prob)"
    unfolding build_model_ok(1) [OF build] by force
  show "sol (Assign (team_member.name tm) (project.name p)) = 0"
    by (rule feasible_pinned [OF build feas tm p l])
qed

theorem emitted_assignments_qualified_witness:
  "build_model projects team = (fst (build_model projects team), None)
   \<and> feasible (project_variables projects @ team_project_variables team projects)
       (fst (build_model projects team)) recorded_solution
   \<and> (''Dr Bunsen Honeydew'', ''Secondary Deliverables reporting'')
       \<in> set (team_assignments (Some \<circ> recorded_solution) team projects)
   \<and> set (skills_required (projects ! 0)) \<subseteq> set (skills (team ! 2))
   \<and> python_level_required (projects ! 0) \<le> python_level (team ! 2)
   \<and> recorded_solution (Assign (team_member.name (team ! 1)) (project.name (projects ! 2))) = 0"
proof -
  note inst = emitted_assignments_qualified [OF reference_build recorded_feasible recorded_values]
  have mn: "(''Dr Bunsen Honeydew'', ''Secondary Deliverables reporting'')
       \<in> set (team_assignments (Some \<circ> recorded_solution) team projects)"
    by (simp add: recorded_assignments)
  have tm: "team ! 2 \<in> set team" and p: "projects ! 0 \<in> set projects"
    and tm': "team ! 1 \<in> set team" and p': "projects ! 2 \<in> set projects"
    by (simp_all add: team_def projects_def)
  have names: "team_member.name (team ! 2) = fst (''Dr Bunsen Honeydew'', ''Secondary Deliverables reporting'')
               \<and> project.name (projects ! 0) = snd (''Dr Bunsen Honeydew'', ''Secondary Deliverables reporting'')"
    by (simp add: team_def projects_def)
  from inst mn tm p names
  have q: "set (skills_required (projects ! 0)) \<subseteq> set (skills (team ! 2))
           \<and> python_level_required (projects ! 0) \<le> python_level (team ! 2)"
    by blast
  have lacks: "\<not> set (skills_required (projects ! 2)) \<subseteq> set (skills (team ! 1))
                 \<or> python_level (team ! 1) < python_level_required (projects ! 2)"
    by (simp add: team_def projects_def)
  from inst tm' p' lacks
  have z: "recorded_solution (Assign (team_member.name (team ! 1)) (project.name (projects ! 2))) = 0"
    by blast
  from reference_build recorded_feasible mn q z show ?thesis by blast
qed

text \<open>
  Capacity for a solution that satisfies the built model exactly: for every member the
  sum over the projects of the assignment value times the project's hours to implement
  is at most the member's hours available, and so is the sum of the full hours to
  implement of the projects the member is emitted as assigned to (a project counts in
  full for each of its members, whoever else is assigned to it).
\<close>

lemma exact_solution_respects_capacity:
  assumes build: "build_model ps tms = (prob, None)"
    and feas: "feasible (project_variables ps @ team_project_variables tms ps) prob sol"
    and vals: "\<forall>v \<in> set (project_variables ps @ team_project_variables tms ps). varValue v = Some (sol v)"
  shows "\<forall>tm \<in> set tms.
           (\<Sum>p\<leftarrow>ps. of_int (hours_to_implement p) * sol (Assign (team_member.name tm) (project.name p)))
              \<le> of_int (hours_available tm)
           \<and> (\<Sum>p\<leftarrow>filter (\<lambda>p. (team_member.name tm, project.name p)
                                  \<in> set (team_assignments varValue tms ps)) ps.
                 hours_to_implement p) \<le> hours_available tm"
proof (intro ballI conjI)
  fix tm assume tm: "tm \<in> set tms"
  let ?s = "\<lambda>p. sol (Assign (team_member.name tm) (project.name p))"
  show le: "(\<Sum>p\<leftarrow>ps. of_int (hours_to_implement p) * ?s p) \<le> of_int (hours_available tm)"
    by (rule feasible_hours [OF build feas tm])
  have bin: "\<forall>p \<in> set ps. ?s p = 0 \<or> ?s p = 1"
    using feasible_binary [OF feas] assign_var_declared [OF tm] by simp
  have same: "filter (\<lambda>p. (team_member.name tm, project.name p)
                            \<in> set (team_assignments varValue tms ps)) ps
                = filter (\<lambda>p. ?s p = 1) ps"
  proof (rule filter_cong [OF refl])
    fix p assume p: "p \<in> set ps"
    have "varValue (Assign (team_member.name tm) (project.name p)) = Some (?s p)"
      using vals assign_var_declared [OF tm p] by simp
    then show "((team_member.name tm, project.name p) \<in> set (team_assignments varValue tms ps))
                 = (?s p = 1)"
      using tm p by (auto simp: in_team_assignments)
  qed
  have "(of_int (\<Sum>p\<leftarrow>filter (\<lambda>p. ?s p = 1) ps. hours_to_implement p) :: rat)
          \<le> of_int (hours_available tm)"
    using le unfolding binary_weighted_sum [OF bin] .
  then show "(\<Sum>p\<leftarrow>filter (\<lambda>p. (team_member.name tm, project.name p)
                                  \<in> set (team_assignments varValue tms ps)) ps.
                 hours_to_implement p) \<le> hours_available tm"
    unfolding same by simp
qed

lemma recorded_run_respects_capacity:
  "build_model projects team = (fst (build_model projects team), None)
   \<and> feasible (project_variables projects @ team_project_variables team projects)
       (fst (build_model projects team)) recorded_solution
   \<and> (\<Sum>p\<leftarrow>filter (\<lambda>p. (team_member.name (team ! 4), project.name p)
                          \<in> set (team_assignments (Some \<circ> recorded_solution) team projects)) projects.
         hours_to_implement p) \<le> hours_available (team ! 4)"
proof -
  note inst = exact_solution_respects_capacity [OF reference_build recorded_feasible recorded_values]
  have tm: "team ! 4 \<in> set team" by (simp add: team_def)
  from inst tm have "(\<Sum>p\<leftarrow>filter (\<lambda>p. (team_member.name (team ! 4), project.name p)
                          \<in> set (team_assignments (Some \<circ> recorded_solution) team projects)) projects.
         hours_to_implement p) \<le> hours_available (team ! 4)"
    by blast
  with reference_build recorded_feasible show ?thesis by blast
qed


section \<open>The reference scenario\<close>

text \<open>
  Claim C1: for the five projects with benefits 20, 40, 5, 5, 10 and efforts 160, 200,
  80, 40, 80 and the six members with capacities 180, 140, 160, 220, 120, 140, with no
  bound on concurrent projects, the model is built without error, and every outcome of
  the solver has status Optimal, selects exactly Secondary Deliverables reporting, ISS,
  Network Interventions lists and Pulse Report report generation, and a total of 40.
\<close>

theorem reference_scenario:
  assumes "solve (project_variables projects @ team_project_variables team projects)
             (fst (build_model projects team)) status varValue"
  shows "map hours_saved_per_month projects = [20, 40, 5, 5, 10]
         \<and> map hours_to_implement projects = [160, 200, 80, 40, 80]
         \<and> map hours_available team = [180, 140, 160, 220, 120, 140]
         \<and> snd (build_model projects team) = None
         \<and> LpStatus status = Some ''Optimal''
         \<and> selected_projects varValue projects =
             [''Secondary Deliverables reporting'', ''ISS'', ''Network Interventions lists'',
              ''Pulse Report report generation'']
         \<and> total_hours_saved varValue projects = 40"
proof -
  let ?vars = "project_variables projects @ team_project_variables team projects"
  let ?prob = "fst (build_model projects team)"
  have ex: "\<exists>sol. feasible ?vars ?prob sol" using recorded_feasible by blast
  with assms have st: "status = 1"
    and "\<exists>sol. optimal ?vars ?prob sol \<and> (\<forall>v \<in> set ?vars. varValue v = Some (sol v))"
    by (simp_all add: solve_def)
  then obtain sol where opt: "optimal ?vars ?prob sol"
    and vals: "\<forall>v \<in> set ?vars. varValue v = Some (sol v)" by blast
  have sel: "\<forall>p \<in> set projects. varValue (SelectProject (project.name p))
               = Some (sol (SelectProject (project.name p)))"
    using vals select_var_declared by simp
  note s = reference_optimal_selection [OF opt]
  from sel s have v:
    "varValue (SelectProject ''Secondary Deliverables reporting'') = Some 1"
    "varValue (SelectProject ''I&M Work Order generation'') = Some 0"
    "varValue (SelectProject ''ISS'') = Some 1"
    "varValue (SelectProject ''Network Interventions lists'') = Some 1"
    "varValue (SelectProject ''Pulse Report report generation'') = Some 1"
    by (simp_all add: projects_def)
  have 1: "map hours_saved_per_month projects = [20, 40, 5, 5, 10]"
    by (simp add: projects_def)
  have 2: "map hours_to_implement projects = [160, 200, 80, 40, 80]"
    by (simp add: projects_def)
  have 3: "map hours_available team = [180, 140, 160, 220, 120, 140]"
    by (simp add: team_def)
  have 4: "snd (build_model projects team) = None"
    using reference_build by (metis snd_conv)
  have 5: "LpStatus status = Some ''Optimal''"
    using st by (simp add: LpStatus_def)
  have 6: "selected_projects varValue projects =
             [''Secondary Deliverables reporting'', ''ISS'', ''Network Interventions lists'',
              ''Pulse Report report generation'']"
    using v by (simp add: selected_projects_eq projects_def)
  have 7: "total_hours_saved varValue projects = 40"
    using v by (simp add: total_hours_saved_eq projects_def)
  from 1 2 3 4 5 6 7 show ?thesis by blast
qed

theorem reference_scenario_witness:
  "solve (project_variables projects @ team_project_variables team projects)
     (fst (build_model projects team)) 1 (Some \<circ> recorded_solution)
   \<and> LpStatus 1 = Some ''Optimal''
   \<and> selected_projects (Some \<circ> recorded_solution) projects =
       [''Secondary Deliverables reporting'', ''ISS'', ''Network Interventions lists'',
        ''Pulse Report report generation'']
   \<and> total_hours_saved (Some \<circ> recorded_solution) projects = 40"
  using recorded_solve reference_scenario [OF recorded_solve] by blast

section \<open>The bound on concurrent projects\<close>





end
